theory Spec2Isabelle
  imports Main
begin

section \<open>The remote client\<close>

text \<open>
  Both components talk to the backend through \<^verbatim>\<open>axiosInstance\<close>. A call is logged as
  a request value; what the awaited promise does is an outcome: it either resolves with
  the response body (\<^verbatim>\<open>response.data\<close>) or rejects with an error, which the
  handlers' \<^verbatim>\<open>catch\<close> blocks receive. The backend itself is a parameter \<open>remote\<close> of
  every handler.
\<close>

datatype http_method = POST | PUT

record js_file =
  file_type :: string
  file_size :: nat

datatype part = Text string | Upload js_file

datatype payload = Json "(string \<times> string) list" | Multipart "(string \<times> part) list"

record http_request =
  verb :: http_method
  url :: string
  payload :: payload

datatype 'a outcome = Responded 'a | Threw string

text \<open>The body of the three \<^verbatim>\<open>/auth\<close> responses: \<^verbatim>\<open>{success, message}\<close>.\<close>

record auth_data =
  data_success :: bool
  data_message :: string

section \<open>The password-reset wizard (ForgotPassword.jsx)\<close>

subsection \<open>Validation schemas\<close>

text \<open>
  The values of the single react-hook-form form; all four fields start as the empty
  string (\<^verbatim>\<open>defaultValues\<close>) and are strings throughout.
\<close>

record form_values =
  f_email :: string
  f_otp :: string
  f_newPassword :: string
  f_confirmNewPassword :: string

text \<open>
  A schema maps the form values to the validation errors it reports, as (field, message)
  pairs; the values are valid when the list is empty. The tests are the ones chained in
  the source: \<^verbatim>\<open>required\<close> fails on the empty string, \<^verbatim>\<open>length(6)\<close> compares the string
  length with 6, \<^verbatim>\<open>min(6)\<close> is a lower bound on the length, \<^verbatim>\<open>oneOf([ref, null])\<close>
  compares with the referenced field. The pattern behind \<^verbatim>\<open>email()\<close> belongs to the yup
  library and is the parameter \<open>rEmail\<close>; yup does not apply it to the empty string.
\<close>

definition emailSchema :: "(string \<Rightarrow> bool) \<Rightarrow> form_values \<Rightarrow> (string \<times> string) list" where
  "emailSchema rEmail d =
     (if f_email d \<noteq> [] \<and> \<not> rEmail (f_email d) then [(''email'', ''Invalid email address'')] else []) @
     (if f_email d = [] then [(''email'', ''Email is required'')] else [])"

definition otpSchema :: "form_values \<Rightarrow> (string \<times> string) list" where
  "otpSchema d =
     (if length (f_otp d) \<noteq> 6 then [(''otp'', ''OTP must be 6 digits'')] else []) @
     (if f_otp d = [] then [(''otp'', ''OTP is required'')] else [])"

definition passwordSchema :: "form_values \<Rightarrow> (string \<times> string) list" where
  "passwordSchema d =
     (if length (f_newPassword d) < 6
      then [(''newPassword'', ''Password must be at least 6 characters long'')] else []) @
     (if f_newPassword d = [] then [(''newPassword'', ''New password is required'')] else []) @
     (if f_confirmNewPassword d \<noteq> f_newPassword d
      then [(''confirmNewPassword'', ''Passwords must match'')]
      else if f_confirmNewPassword d = []
      then [(''confirmNewPassword'', ''Confirm password is required'')] else [])"

subsection \<open>State\<close>

text \<open>The step is the number 1, 2 or 3 of the source: 1 email, 2 otp, 3 reset password.\<close>

datatype step = Email | Otp | Reset

text \<open>
  The five \<^verbatim>\<open>useState\<close> cells and the form's \<^verbatim>\<open>errors\<close>, together with the two effects
  the handlers have on the outside: the requests posted so far and the routes passed to
  \<^verbatim>\<open>navigate\<close>, oldest first.
\<close>

record wizard =
  step :: step
  message :: string
  success :: bool
  isLoading :: bool
  email :: string
  errors :: "(string \<times> string) list"
  requests :: "http_request list"
  navigations :: "string list"

definition initial :: wizard where
  "initial = \<lparr>step = Email, message = [], success = False, isLoading = False, email = [],
     errors = [], requests = [], navigations = []\<rparr>"

subsection \<open>Submit handlers\<close>

definition forgot_password_request :: "form_values \<Rightarrow> http_request" where
  "forgot_password_request d =
     \<lparr>verb = POST, url = ''/auth/forgot-password'', payload = Json [(''email'', f_email d)]\<rparr>"

definition verify_otp_request :: "string \<Rightarrow> form_values \<Rightarrow> http_request" where
  "verify_otp_request em d =
     \<lparr>verb = POST, url = ''/auth/verify-otp'',
      payload = Json [(''email'', em), (''otp'', f_otp d)]\<rparr>"

definition reset_password_request :: "string \<Rightarrow> form_values \<Rightarrow> http_request" where
  "reset_password_request em d =
     \<lparr>verb = POST, url = ''/auth/reset-password'',
      payload = Json [(''email'', em), (''newPassword'', f_newPassword d),
                      (''confirmNewPassword'', f_confirmNewPassword d)]\<rparr>"

definition handleEmailSubmit ::
  "(http_request \<Rightarrow> auth_data outcome) \<Rightarrow> form_values \<Rightarrow> wizard \<Rightarrow> wizard" where
  "handleEmailSubmit remote d w =
     (let w1 = w\<lparr>isLoading := True, message := []\<rparr>;
          q = forgot_password_request d;
          w2 = w1\<lparr>requests := requests w1 @ [q]\<rparr>;
          w3 = (case remote q of
                  Responded r \<Rightarrow>
                    (let w' = w2\<lparr>message := data_message r, success := data_success r\<rparr>
                     in if data_success r then w'\<lparr>email := f_email d, step := Otp\<rparr> else w')
                | Threw e \<Rightarrow>
                    w2\<lparr>message := ''Something went wrong. Please try again.'',
                       success := False\<rparr>)
      in w3\<lparr>isLoading := False\<rparr>)"

definition handleOtpSubmit ::
  "(http_request \<Rightarrow> auth_data outcome) \<Rightarrow> form_values \<Rightarrow> wizard \<Rightarrow> wizard" where
  "handleOtpSubmit remote d w =
     (let w1 = w\<lparr>isLoading := True, message := []\<rparr>;
          q = verify_otp_request (email w) d;
          w2 = w1\<lparr>requests := requests w1 @ [q]\<rparr>;
          w3 = (case remote q of
                  Responded r \<Rightarrow>
                    (let w' = w2\<lparr>message := data_message r, success := data_success r\<rparr>
                     in if data_success r then w'\<lparr>step := Reset\<rparr> else w')
                | Threw e \<Rightarrow>
                    w2\<lparr>message := ''Error verifying OTP. Please try again.'',
                       success := False\<rparr>)
      in w3\<lparr>isLoading := False\<rparr>)"

definition handlePasswordReset ::
  "(http_request \<Rightarrow> auth_data outcome) \<Rightarrow> form_values \<Rightarrow> wizard \<Rightarrow> wizard" where
  "handlePasswordReset remote d w =
     (let w1 = w\<lparr>isLoading := True, message := []\<rparr>;
          q = reset_password_request (email w) d;
          w2 = w1\<lparr>requests := requests w1 @ [q]\<rparr>;
          w3 = (case remote q of
                  Responded r \<Rightarrow>
                    (let w' = w2\<lparr>message := data_message r, success := data_success r\<rparr>
                     in if data_success r
                        then w'\<lparr>step := Email, navigations := navigations w' @ [''/login'']\<rparr>
                        else w')
                | Threw e \<Rightarrow>
                    w2\<lparr>message := ''Error resetting password. Please try again.'',
                       success := False\<rparr>)
      in w3\<lparr>isLoading := False\<rparr>)"

subsection \<open>The form: resolver, submission gate, rendered controls\<close>

text \<open>The schema handed to \<^verbatim>\<open>yupResolver\<close> is chosen by the current step.\<close>

definition resolver :: "(string \<Rightarrow> bool) \<Rightarrow> step \<Rightarrow> form_values \<Rightarrow> (string \<times> string) list" where
  "resolver rEmail s d =
     (if s = Email then emailSchema rEmail d
      else if s = Otp then otpSchema d
      else passwordSchema d)"

text \<open>
  The resolver turns the schema's errors into the form's error object, which keeps one
  message per field: the first one reported for it.
\<close>

definition firstPerField :: "(string \<times> string) list \<Rightarrow> (string \<times> string) list" where
  "firstPerField inner =
     foldl (\<lambda>previous e. if fst e \<in> fst ` set previous then previous else previous @ [e])
       [] inner"

text \<open>
  \<^verbatim>\<open>handleSubmit(cb)\<close> of react-hook-form runs the resolver on the current values and
  calls \<open>cb\<close> with them only when no error is reported; otherwise the errors go to the
  form state and \<open>cb\<close> is not called.
\<close>

definition handleSubmit ::
  "(string \<Rightarrow> bool) \<Rightarrow> (form_values \<Rightarrow> wizard \<Rightarrow> wizard) \<Rightarrow> form_values \<Rightarrow> wizard \<Rightarrow> wizard" where
  "handleSubmit rEmail cb d w =
     (let errs = resolver rEmail (step w) d
      in if errs = [] then cb d (w\<lparr>errors := []\<rparr>) else w\<lparr>errors := firstPerField errs\<rparr>)"

text \<open>
  The three forms are rendered one at a time, by step; the names are those of the
  specification's Step Controller.
\<close>

definition submitEmail ::
  "(string \<Rightarrow> bool) \<Rightarrow> (http_request \<Rightarrow> auth_data outcome) \<Rightarrow> form_values \<Rightarrow> wizard \<Rightarrow> wizard" where
  "submitEmail rEmail remote = handleSubmit rEmail (handleEmailSubmit remote)"

definition submitOtp ::
  "(string \<Rightarrow> bool) \<Rightarrow> (http_request \<Rightarrow> auth_data outcome) \<Rightarrow> form_values \<Rightarrow> wizard \<Rightarrow> wizard" where
  "submitOtp rEmail remote = handleSubmit rEmail (handleOtpSubmit remote)"

definition submitReset ::
  "(string \<Rightarrow> bool) \<Rightarrow> (http_request \<Rightarrow> auth_data outcome) \<Rightarrow> form_values \<Rightarrow> wizard \<Rightarrow> wizard" where
  "submitReset rEmail remote = handleSubmit rEmail (handlePasswordReset remote)"

text \<open>The Back button: \<^verbatim>\<open>onClick={() => setStep(1)}\<close>.\<close>

definition goBack :: "wizard \<Rightarrow> wizard" where
  "goBack w = w\<lparr>step := Email\<rparr>"

text \<open>
  What the user can do in a state: submit the form that is on screen, or, in step 2
  only, press Back.
\<close>

datatype event = Submit form_values | Back

definition dispatch ::
  "(string \<Rightarrow> bool) \<Rightarrow> (http_request \<Rightarrow> auth_data outcome) \<Rightarrow> event \<Rightarrow> wizard \<Rightarrow> wizard" where
  "dispatch rEmail remote ev w =
     (case ev of
        Submit d \<Rightarrow>
          (if step w = Email then submitEmail rEmail remote d w
           else if step w = Otp then submitOtp rEmail remote d w
           else submitReset rEmail remote d w)
      | Back \<Rightarrow> (if step w = Otp then goBack w else w))"

text \<open>The states of a session: from the mounted component, any events, any backend.\<close>

inductive reachable :: "(string \<Rightarrow> bool) \<Rightarrow> wizard \<Rightarrow> bool" for rEmail where
  init: "reachable rEmail initial"
| after: "reachable rEmail w \<Longrightarrow> reachable rEmail (dispatch rEmail remote ev w)"

text \<open>The message banner: rendered only for a non-empty message, green on success.\<close>

definition banner :: "wizard \<Rightarrow> (string \<times> bool) option" where
  "banner w = (if message w = [] then None else Some (message w, success w))"

text \<open>
  The request a submission posts once it passes the gate, the fixed message of the
  \<^verbatim>\<open>catch\<close> block of the handler behind each form, and whether an outcome is a response
  with \<^verbatim>\<open>success\<close> set.
\<close>

definition step_request :: "wizard \<Rightarrow> form_values \<Rightarrow> http_request" where
  "step_request w d =
     (if step w = Email then forgot_password_request d
      else if step w = Otp then verify_otp_request (email w) d
      else reset_password_request (email w) d)"

definition retry_message :: "step \<Rightarrow> string" where
  "retry_message s =
     (if s = Email then ''Something went wrong. Please try again.''
      else if s = Otp then ''Error verifying OTP. Please try again.''
      else ''Error resetting password. Please try again.'')"

fun succeeded :: "auth_data outcome \<Rightarrow> bool" where
  "succeeded (Responded r) = data_success r"
| "succeeded (Threw e) = False"

section \<open>The client form (ClientForm)\<close>

subsection \<open>Validation schema\<close>

text \<open>
  Each field's tests in the order they are chained, each failing test giving its message.
  \<^verbatim>\<open>required\<close> fails on the empty string; \<^verbatim>\<open>min\<close> and \<^verbatim>\<open>max\<close> bound the length; the
  pattern behind \<^verbatim>\<open>url()\<close> belongs to the yup library and is the parameter \<open>rUrl\<close>, which
  yup does not apply to the empty string.
\<close>

definition title_errors :: "string \<Rightarrow> string list" where
  "title_errors t =
     (if t = [] then [''Client name is required''] else []) @
     (if 100 < length t then [''Client name cannot exceed 100 characters''] else [])"

definition website_errors :: "(string \<Rightarrow> bool) \<Rightarrow> string \<Rightarrow> string list" where
  "website_errors rUrl u =
     (if u = [] then [''Website URL is required''] else []) @
     (if u \<noteq> [] \<and> \<not> rUrl u
      then [''Please enter a valid URL (e.g., https://example.com)''] else []) @
     (if 255 < length u then [''Website URL cannot exceed 255 characters''] else [])"

definition content_errors :: "string \<Rightarrow> string list" where
  "content_errors c =
     (if c = [] then [''Description is required''] else []) @
     (if length c < 10 then [''Description must be at least 10 characters''] else []) @
     (if 1000 < length c then [''Description cannot exceed 1000 characters''] else [])"

definition allowedTypes :: "string list" where
  "allowedTypes = [''image/jpeg'', ''image/png'', ''image/gif'', ''image/webp'']"

definition fileFormat :: "js_file option \<Rightarrow> bool" where
  "fileFormat v = (case v of None \<Rightarrow> True | Some f \<Rightarrow> file_type f \<in> set allowedTypes)"

definition fileSize :: "js_file option \<Rightarrow> bool" where
  "fileSize v = (case v of None \<Rightarrow> True | Some f \<Rightarrow> file_size f \<le> 2 * 1024 * 1024)"

definition image_errors :: "js_file option \<Rightarrow> string list" where
  "image_errors v =
     (if fileFormat v then [] else [''Only JPG, PNG, GIF and WEBP images are allowed'']) @
     (if fileSize v then [] else [''Image size cannot exceed 2MB''])"

text \<open>
  \<^verbatim>\<open>clientSchema.validate(..., {abortEarly: false})\<close>: all errors of all fields, as
  (path, message) pairs; the empty list when the promise resolves.
\<close>

definition clientSchema ::
  "(string \<Rightarrow> bool) \<Rightarrow> string \<Rightarrow> string \<Rightarrow> string \<Rightarrow> js_file option \<Rightarrow> (string \<times> string) list" where
  "clientSchema rUrl t u c v =
     map (Pair ''title'') (title_errors t) @
     map (Pair ''website'') (website_errors rUrl u) @
     map (Pair ''content'') (content_errors c) @
     map (Pair ''image'') (image_errors v)"

subsection \<open>State and props\<close>

datatype toast = ToastError string | ToastSuccess string

text \<open>
  The component's state cells, and its effects on the outside: requests sent, toasts
  shown, calls of \<^verbatim>\<open>refreshClientList\<close>, and the drawer flag set through
  \<^verbatim>\<open>setIsDrawerOpen\<close>.
\<close>

record client_form =
  title :: string
  website :: string
  content :: string
  imageFile :: "js_file option"
  imagePreview :: "string option"
  field_errors :: "string \<rightharpoonup> string"
  touched :: "string \<rightharpoonup> bool"
  sent :: "http_request list"
  toasts :: "toast list"
  refreshes :: nat
  drawerOpen :: bool

record client_record =
  client_id :: string
  client_name :: string
  client_website :: string
  client_description :: string
  client_logo :: "string option"

record props =
  mode :: string
  initialData :: "client_record option"
  refreshClientList :: bool

subsection \<open>Handlers\<close>

definition resetForm :: "client_form \<Rightarrow> client_form" where
  "resetForm c = c\<lparr>title := [], website := [], content := [], imageFile := None,
     imagePreview := None, field_errors := Map.empty, touched := Map.empty\<rparr>"

definition allFields :: "string list" where
  "allFields = [''title'', ''website'', ''content'', ''image'']"

text \<open>
  \<^verbatim>\<open>validateForm\<close> returns whether the schema accepted the state's values; on failure
  the new error object gets one entry per reported path, a later error of the same
  path overwriting an earlier one.
\<close>

definition validateForm :: "(string \<Rightarrow> bool) \<Rightarrow> client_form \<Rightarrow> bool \<times> client_form" where
  "validateForm rUrl c =
     (let allTouched = foldl (\<lambda>acc field. acc(field \<mapsto> True)) Map.empty allFields;
          c1 = c\<lparr>touched := allTouched\<rparr>;
          inner = clientSchema rUrl (title c) (website c) (content c) (imageFile c)
      in if inner = [] then (True, c1\<lparr>field_errors := Map.empty\<rparr>)
         else (False, c1\<lparr>field_errors := foldl (\<lambda>newErrors (path, msg). newErrors(path \<mapsto> msg))
                                             Map.empty inner\<rparr>))"

definition formData :: "client_form \<Rightarrow> (string \<times> part) list" where
  "formData c =
     [(''name'', Text (title c)), (''website'', Text (website c)),
      (''description'', Text (content c))] @
     (case imageFile c of Some f \<Rightarrow> [(''logo'', Upload f)] | None \<Rightarrow> [])"

text \<open>The end of the \<^verbatim>\<open>try\<close> block, reached when no call has thrown.\<close>

definition finish :: "props \<Rightarrow> client_form \<Rightarrow> client_form" where
  "finish p c =
     (let c1 = (if refreshClientList p then c\<lparr>refreshes := Suc (refreshes c)\<rparr> else c)
      in (resetForm c1)\<lparr>drawerOpen := False\<rparr>)"

definition failed :: "client_form \<Rightarrow> client_form" where
  "failed c = c\<lparr>toasts := toasts c @ [ToastError ''Failed to save client. Please try again.'']\<rparr>"

definition create_request :: "client_form \<Rightarrow> http_request" where
  "create_request c =
     \<lparr>verb = POST, url = ''/client/create-client'', payload = Multipart (formData c)\<rparr>"

definition update_request :: "client_record \<Rightarrow> client_form \<Rightarrow> http_request" where
  "update_request r c =
     \<lparr>verb = PUT, url = ''/client/update-client/'' @ client_id r,
      payload = Multipart (formData c)\<rparr>"

text \<open>The form's own \<^verbatim>\<open>handleSubmit\<close>; the response of a call that resolves is not read.\<close>

definition clientHandleSubmit ::
  "(string \<Rightarrow> bool) \<Rightarrow> (http_request \<Rightarrow> 'r outcome) \<Rightarrow> props \<Rightarrow> client_form \<Rightarrow> client_form" where
  "clientHandleSubmit rUrl remote p c =
     (case validateForm rUrl c of
        (False, c1) \<Rightarrow>
          c1\<lparr>toasts := toasts c1 @ [ToastError ''Please fix the errors in the form.'']\<rparr>
      | (True, c1) \<Rightarrow>
          (if mode p = ''add'' then
             (let q = create_request c1; c2 = c1\<lparr>sent := sent c1 @ [q]\<rparr>
              in case remote q of
                   Threw e \<Rightarrow> failed c2
                 | Responded r \<Rightarrow>
                     finish p (c2\<lparr>toasts := toasts c2 @
                                  [ToastSuccess ''Client created successfully!'']\<rparr>))
           else if mode p = ''edit'' then
             (case initialData p of
                None \<Rightarrow> finish p c1
              | Some d \<Rightarrow>
                  (let q = update_request d c1; c2 = c1\<lparr>sent := sent c1 @ [q]\<rparr>
                   in case remote q of
                        Threw e \<Rightarrow> failed c2
                      | Responded r \<Rightarrow>
                          finish p (c2\<lparr>toasts := toasts c2 @
                                       [ToastSuccess ''Client updated successfully!'']\<rparr>)))
           else finish p c1))"

section \<open>The conditions as the specification words them\<close>

text \<open>
  The conditions the client-form claim lists, in its words, to be compared with what
  \<open>clientSchema\<close> reports.
\<close>

definition spec_title_violation :: "string \<Rightarrow> bool" where
  "spec_title_violation t = (t = [] \<or> 100 < length t)"

definition spec_website_violation :: "(string \<Rightarrow> bool) \<Rightarrow> string \<Rightarrow> bool" where
  "spec_website_violation rUrl u = (u = [] \<or> \<not> rUrl u \<or> 255 < length u)"

definition spec_content_violation :: "string \<Rightarrow> bool" where
  "spec_content_violation c = (length c < 10 \<or> 1000 < length c)"

definition spec_image_violation :: "js_file option \<Rightarrow> bool" where
  "spec_image_violation v =
     (case v of
        None \<Rightarrow> False
      | Some f \<Rightarrow>
          file_type f \<notin> {''image/jpeg'', ''image/png'', ''image/gif'', ''image/webp''} \<or>
          2 * 1024 * 1024 < file_size f)"

definition spec_client_violation :: "(string \<Rightarrow> bool) \<Rightarrow> client_form \<Rightarrow> bool" where
  "spec_client_violation rUrl c =
     (spec_title_violation (title c) \<or> spec_website_violation rUrl (website c) \<or>
      spec_content_violation (content c) \<or> spec_image_violation (imageFile c))"

text \<open>A digit character, as the OTP claim means it.\<close>

definition digit :: "char \<Rightarrow> bool" where
  "digit c = (c \<in> set ''0123456789'')"

section \<open>Concrete inputs\<close>

text \<open>
  Stand-ins for the two library patterns (an address has an at sign, a URL has a colon),
  three backends, form values and the states of one session. They are used only to run
  the definitions on examples.
\<close>

definition sample_rEmail :: "string \<Rightarrow> bool" where
  "sample_rEmail s = (CHR ''@'' \<in> set s)"

definition sample_rUrl :: "string \<Rightarrow> bool" where
  "sample_rUrl u = (CHR '':'' \<in> set u)"

definition accepting :: "http_request \<Rightarrow> auth_data outcome" where
  "accepting q = Responded \<lparr>data_success = True, data_message = ''OK''\<rparr>"

definition rejecting :: "http_request \<Rightarrow> auth_data outcome" where
  "rejecting q = Responded \<lparr>data_success = False, data_message = ''Invalid OTP''\<rparr>"

definition unreachable :: "http_request \<Rightarrow> auth_data outcome" where
  "unreachable q = Threw ''Network Error''"

definition saving :: "http_request \<Rightarrow> unit outcome" where
  "saving q = Responded ()"

definition sample_values :: form_values where
  "sample_values = \<lparr>f_email = ''a@b.co'', f_otp = ''123456'', f_newPassword = ''secret1'',
     f_confirmNewPassword = ''secret1''\<rparr>"

definition other_values :: form_values where
  "other_values = sample_values\<lparr>f_email := ''c@d.co''\<rparr>"

definition malformed_values :: form_values where
  "malformed_values = sample_values\<lparr>f_email := ''nobody''\<rparr>"

definition letters_values :: form_values where
  "letters_values = sample_values\<lparr>f_otp := ''abcdef''\<rparr>"

definition mismatched_values :: form_values where
  "mismatched_values = sample_values\<lparr>f_confirmNewPassword := ''secret2''\<rparr>"

definition at_otp :: wizard where
  "at_otp = dispatch sample_rEmail accepting (Submit sample_values) initial"

definition after_back :: wizard where
  "after_back = dispatch sample_rEmail accepting Back at_otp"

definition after_resubmit :: wizard where
  "after_resubmit = dispatch sample_rEmail accepting (Submit other_values) after_back"

definition at_reset :: wizard where
  "at_reset = dispatch sample_rEmail accepting (Submit sample_values) at_otp"

definition blank_form :: client_form where
  "blank_form = \<lparr>title = [], website = [], content = [], imageFile = None, imagePreview = None,
     field_errors = Map.empty, touched = Map.empty, sent = [], toasts = [], refreshes = 0,
     drawerOpen = True\<rparr>"

definition filled_form :: client_form where
  "filled_form = blank_form\<lparr>title := ''Acme'', website := ''https://acme.example'',
     content := ''Maker of anvils''\<rparr>"

definition sample_logo :: js_file where
  "sample_logo = \<lparr>file_type = ''image/png'', file_size = 2048\<rparr>"

definition sample_client :: client_record where
  "sample_client = \<lparr>client_id = ''42'', client_name = ''Acme'',
     client_website = ''https://acme.example'', client_description = ''Maker of anvils'',
     client_logo = None\<rparr>"

definition add_props :: props where
  "add_props = \<lparr>mode = ''add'', initialData = None, refreshClientList = True\<rparr>"

definition edit_props :: props where
  "edit_props = \<lparr>mode = ''edit'', initialData = Some sample_client, refreshClientList = True\<rparr>"

definition recordless_props :: props where
  "recordless_props = \<lparr>mode = ''edit'', initialData = None, refreshClientList = True\<rparr>"

section \<open>Properties of the password-reset wizard\<close>

lemmas handler_defs = handleEmailSubmit_def handleOtpSubmit_def handlePasswordReset_def
lemmas submit_defs = submitEmail_def submitOtp_def submitReset_def handleSubmit_def resolver_def
lemmas request_defs = forgot_password_request_def verify_otp_request_def reset_password_request_def
lemmas sample_defs = sample_rEmail_def accepting_def rejecting_def unreachable_def
  sample_values_def other_values_def malformed_values_def letters_values_def
  mismatched_values_def

subsection \<open>What each schema accepts\<close>

lemma emailSchema_ok: "emailSchema rEmail d = [] \<longleftrightarrow> f_email d \<noteq> [] \<and> rEmail (f_email d)"
  by (auto simp: emailSchema_def)

lemma otpSchema_ok: "otpSchema d = [] \<longleftrightarrow> length (f_otp d) = 6"
  by (auto simp: otpSchema_def)

lemma passwordSchema_ok:
  "passwordSchema d = [] \<longleftrightarrow>
     6 \<le> length (f_newPassword d) \<and> f_confirmNewPassword d = f_newPassword d"
  by (auto simp: passwordSchema_def)

subsection \<open>The sample session\<close>

lemma at_otp_eq:
  "at_otp = \<lparr>step = Otp, message = ''OK'', success = True, isLoading = False, email = ''a@b.co'',
     errors = [], requests = [forgot_password_request sample_values], navigations = []\<rparr>"
  by (simp add: at_otp_def dispatch_def submit_defs handler_defs initial_def emailSchema_def
      sample_defs Let_def)

lemma after_back_eq:
  "after_back = \<lparr>step = Email, message = ''OK'', success = True, isLoading = False,
     email = ''a@b.co'', errors = [], requests = [forgot_password_request sample_values],
     navigations = []\<rparr>"
  by (simp add: after_back_def at_otp_eq dispatch_def goBack_def)

lemma after_resubmit_eq:
  "after_resubmit = \<lparr>step = Otp, message = ''OK'', success = True, isLoading = False,
     email = ''c@d.co'', errors = [],
     requests = [forgot_password_request sample_values, forgot_password_request other_values],
     navigations = []\<rparr>"
  by (simp add: after_resubmit_def after_back_eq dispatch_def submit_defs handler_defs
      emailSchema_def sample_defs Let_def)

lemma at_reset_eq:
  "at_reset = \<lparr>step = Reset, message = ''OK'', success = True, isLoading = False,
     email = ''a@b.co'', errors = [],
     requests = [forgot_password_request sample_values,
                 verify_otp_request ''a@b.co'' sample_values],
     navigations = []\<rparr>"
  by (simp add: at_reset_def at_otp_eq dispatch_def submit_defs handler_defs otpSchema_def
      sample_defs Let_def)

lemma reachable_at_otp: "reachable sample_rEmail at_otp"
  unfolding at_otp_def by (rule reachable.after [OF reachable.init])

lemma reachable_after_back: "reachable sample_rEmail after_back"
  unfolding after_back_def by (rule reachable.after [OF reachable_at_otp])

lemma reachable_after_resubmit: "reachable sample_rEmail after_resubmit"
  unfolding after_resubmit_def by (rule reachable.after [OF reachable_after_back])

subsection \<open>The stored email\<close>

text \<open>
  The stored email after any event: only a submission in step 1 that passes the email
  schema and is answered with success writes it, and it writes the submitted address.
\<close>

lemma dispatch_email:
  "email (dispatch rEmail remote ev w) =
     (case ev of
        Submit d \<Rightarrow>
          if step w = Email \<and> emailSchema rEmail d = [] \<and>
             succeeded (remote (forgot_password_request d))
          then f_email d else email w
      | Back \<Rightarrow> email w)"
  by (cases ev; cases "step w")
     (auto simp: dispatch_def submit_defs handler_defs goBack_def Let_def split: outcome.splits)

lemma dispatch_leaves_Email:
  "step (dispatch rEmail remote ev w) \<noteq> Email \<Longrightarrow>
     step w \<noteq> Email \<or>
     (\<exists>d. ev = Submit d \<and> emailSchema rEmail d = [] \<and>
        succeeded (remote (forgot_password_request d)))"
  by (cases ev; cases "step w")
     (auto simp: dispatch_def submit_defs handler_defs goBack_def Let_def
        split: outcome.splits if_splits)

lemma reachable_email_set: "reachable rEmail w \<Longrightarrow> step w \<noteq> Email \<Longrightarrow> email w \<noteq> []"
proof (induction rule: reachable.induct)
  case init
  then show ?case by (simp add: initial_def)
next
  case (after w remote ev)
  from dispatch_leaves_Email [OF after.prems]
  show ?case
  proof
    assume away: "step w \<noteq> Email"
    with after.IH have "email w \<noteq> []" by simp
    moreover have "email (dispatch rEmail remote ev w) = email w"
      using away by (simp add: dispatch_email split: event.splits)
    ultimately show ?thesis by simp
  next
    assume "\<exists>d. ev = Submit d \<and> emailSchema rEmail d = [] \<and>
        succeeded (remote (forgot_password_request d))"
    then obtain d where d: "ev = Submit d" "emailSchema rEmail d = []"
      "succeeded (remote (forgot_password_request d))" by blast
    show ?thesis
    proof (cases "step w = Email")
      case True
      with d show ?thesis by (simp add: dispatch_email emailSchema_ok)
    next
      case False
      with after.IH have "email w \<noteq> []" by simp
      with False d show ?thesis by (simp add: dispatch_email)
    qed
  qed
qed

text \<open>
  C1, as stated, fails. In the sample session the user requests an OTP for one address,
  presses Back and requests one for another address: after Back the step is Email while
  the stored email is not empty, and the second request replaces the stored email.
\<close>

theorem email_invariant_counterexample:
  "reachable sample_rEmail after_back \<and> step after_back = Email \<and>
   email after_back = ''a@b.co'' \<and>
   \<not> (email after_back = [] \<longleftrightarrow> step after_back = Email) \<and>
   reachable sample_rEmail after_resubmit \<and> email after_resubmit = ''c@d.co'' \<and>
   email after_resubmit \<noteq> email after_back"
  using reachable_after_back reachable_after_resubmit
  by (simp add: after_back_eq after_resubmit_eq)

text \<open>
  C1, amended: in every reachable state an empty stored email implies step Email (in
  steps Otp and Reset the email is set), and an event changes the stored email only when
  it is a submission in step Email that passes validation and that the backend answers
  with success; the stored email is then the submitted address. Back keeps the email.
\<close>

theorem email_invariant:
  assumes "reachable rEmail w"
  shows "(email w = [] \<longrightarrow> step w = Email) \<and>
         email (dispatch rEmail remote ev w) =
           (case ev of
              Submit d \<Rightarrow>
                if step w = Email \<and> emailSchema rEmail d = [] \<and>
                   succeeded (remote (forgot_password_request d))
                then f_email d else email w
            | Back \<Rightarrow> email w)"
  using reachable_email_set [OF assms] dispatch_email [of rEmail remote ev w] by blast

theorem email_invariant_witness:
  "reachable sample_rEmail at_otp \<and> email at_otp = ''a@b.co'' \<and> step at_otp = Otp \<and>
   email (dispatch sample_rEmail accepting Back at_otp) = ''a@b.co'' \<and>
   email (dispatch sample_rEmail accepting (Submit other_values) at_otp) = ''a@b.co''"
  using email_invariant [OF reachable_at_otp, of accepting Back]
    email_invariant [OF reachable_at_otp, of accepting "Submit other_values"] reachable_at_otp
  by (simp add: at_otp_eq)

subsection \<open>The OTP gate\<close>

lemma otp_gate:
  assumes "step w = Otp"
  shows "requests (submitOtp rEmail remote d w) =
           (if length (f_otp d) = 6 then requests w @ [verify_otp_request (email w) d]
            else requests w)"
  using assms otpSchema_ok [of d]
  by (auto simp: submit_defs handleOtpSubmit_def Let_def split: outcome.splits)

text \<open>
  C2: the OTP schema tests the length only. Six letters are not six digits, yet the
  schema reports no error for them and the verify-otp request is posted.
\<close>

theorem otp_letters_submitted:
  "\<not> list_all digit (f_otp letters_values) \<and> otpSchema letters_values = [] \<and>
   requests (submitOtp sample_rEmail accepting letters_values at_otp) =
     requests at_otp @ [\<lparr>verb = POST, url = ''/auth/verify-otp'',
        payload = Json [(''email'', ''a@b.co''), (''otp'', ''abcdef'')]\<rparr>] \<and>
   step (submitOtp sample_rEmail accepting letters_values at_otp) = Reset"
  by (simp add: at_otp_eq submit_defs handleOtpSubmit_def otpSchema_def request_defs sample_defs
      digit_def Let_def)

subsection \<open>Submitting the email\<close>

text \<open>
  C3: in step Email, when the submitted values pass the email schema and request-otp
  answers with success, the step becomes Otp and the stored email is the submitted one.
\<close>

theorem submitEmail_success:
  assumes "step w = Email" and "emailSchema rEmail d = []"
    and "remote (forgot_password_request d) = Responded r" and "data_success r"
  shows "step (submitEmail rEmail remote d w) = Otp \<and>
         email (submitEmail rEmail remote d w) = f_email d"
  using assms by (simp add: submit_defs handleEmailSubmit_def Let_def)

theorem submitEmail_success_witness:
  "step initial = Email \<and> emailSchema sample_rEmail sample_values = [] \<and>
   accepting (forgot_password_request sample_values) =
     Responded \<lparr>data_success = True, data_message = ''OK''\<rparr> \<and>
   step (submitEmail sample_rEmail accepting sample_values initial) = Otp \<and>
   email (submitEmail sample_rEmail accepting sample_values initial) = ''a@b.co''"
proof -
  have h1: "step initial = Email" by (simp add: initial_def)
  have h2: "emailSchema sample_rEmail sample_values = []"
    by (simp add: emailSchema_def sample_defs)
  have h3: "accepting (forgot_password_request sample_values) =
     Responded \<lparr>data_success = True, data_message = ''OK''\<rparr>"
    by (simp add: accepting_def)
  have h4: "data_success \<lparr>data_success = True, data_message = ''OK''\<rparr>" by simp
  from submitEmail_success [where remote = accepting and w = initial and d = sample_values
      and rEmail = sample_rEmail, OF h1 h2 h3 h4] h1 h2 h3 show ?thesis
    by (simp add: sample_values_def)
qed

text \<open>
  C5: in step Email, an address that fails the email pattern makes the schema report an
  error, and whenever the schema reports an error no request is posted: the request log
  and the step are unchanged and the errors go to the form state.
\<close>

theorem invalid_email_no_request:
  assumes "step w = Email"
  shows "(\<not> rEmail (f_email d) \<longrightarrow> emailSchema rEmail d \<noteq> []) \<and>
         (emailSchema rEmail d \<noteq> [] \<longrightarrow>
            requests (submitEmail rEmail remote d w) = requests w \<and>
            step (submitEmail rEmail remote d w) = Email \<and>
            errors (submitEmail rEmail remote d w) = emailSchema rEmail d)"
  using assms by (simp add: submit_defs emailSchema_def firstPerField_def Let_def)

theorem invalid_email_no_request_witness:
  "step initial = Email \<and> \<not> sample_rEmail (f_email malformed_values) \<and>
   requests (submitEmail sample_rEmail accepting malformed_values initial) = [] \<and>
   errors (submitEmail sample_rEmail accepting malformed_values initial) =
     [(''email'', ''Invalid email address'')]"
proof -
  have h1: "step initial = Email" by (simp add: initial_def)
  have h2: "\<not> sample_rEmail (f_email malformed_values)" by (simp add: sample_defs)
  have e: "emailSchema sample_rEmail malformed_values = [(''email'', ''Invalid email address'')]"
    by (simp add: emailSchema_def sample_defs)
  from invalid_email_no_request [OF h1, of sample_rEmail malformed_values accepting] h1 h2 e
  show ?thesis by (simp add: initial_def)
qed

subsection \<open>Answers of the backend\<close>

text \<open>
  C4: for the form of any step, when the values pass validation and the backend answers
  with success false and message m, the step is unchanged, the message state is m, the
  success flag is false, and the banner shows m (no banner for an empty m).
\<close>

theorem remote_rejection_keeps_step:
  assumes "resolver rEmail (step w) d = []"
    and "remote (step_request w d) = Responded r" and "\<not> data_success r"
  shows "step (dispatch rEmail remote (Submit d) w) = step w \<and>
         message (dispatch rEmail remote (Submit d) w) = data_message r \<and>
         success (dispatch rEmail remote (Submit d) w) = False \<and>
         banner (dispatch rEmail remote (Submit d) w) =
           (if data_message r = [] then None else Some (data_message r, False))"
  using assms
  by (cases "step w")
     (simp_all add: dispatch_def submit_defs handler_defs step_request_def banner_def Let_def)

theorem remote_rejection_keeps_step_witness:
  "resolver sample_rEmail (step at_otp) sample_values = [] \<and>
   rejecting (step_request at_otp sample_values) =
     Responded \<lparr>data_success = False, data_message = ''Invalid OTP''\<rparr> \<and>
   step (dispatch sample_rEmail rejecting (Submit sample_values) at_otp) = Otp \<and>
   message (dispatch sample_rEmail rejecting (Submit sample_values) at_otp) = ''Invalid OTP'' \<and>
   banner (dispatch sample_rEmail rejecting (Submit sample_values) at_otp) =
     Some (''Invalid OTP'', False)"
proof -
  have h1: "resolver sample_rEmail (step at_otp) sample_values = []"
    by (simp add: at_otp_eq resolver_def otpSchema_def sample_defs)
  have h2: "rejecting (step_request at_otp sample_values) =
     Responded \<lparr>data_success = False, data_message = ''Invalid OTP''\<rparr>"
    by (simp add: rejecting_def)
  have h3: "\<not> data_success \<lparr>data_success = False, data_message = ''Invalid OTP''\<rparr>" by simp
  from remote_rejection_keeps_step [where remote = rejecting and w = at_otp
      and d = sample_values and rEmail = sample_rEmail, OF h1 h2 h3] h1 h2 show ?thesis
    by (simp add: at_otp_eq)
qed

text \<open>
  C8: for the form of any step, when the values pass validation and the call throws, the
  step is unchanged, the message is the fixed text of that handler's catch block
  whatever the error was, the success flag is false, exactly one request has been
  posted, nothing is navigated to and the loading flag is cleared.
\<close>

theorem transport_error_caught:
  assumes "resolver rEmail (step w) d = []" and "remote (step_request w d) = Threw e"
  shows "step (dispatch rEmail remote (Submit d) w) = step w \<and>
         message (dispatch rEmail remote (Submit d) w) = retry_message (step w) \<and>
         success (dispatch rEmail remote (Submit d) w) = False \<and>
         requests (dispatch rEmail remote (Submit d) w) = requests w @ [step_request w d] \<and>
         navigations (dispatch rEmail remote (Submit d) w) = navigations w \<and>
         isLoading (dispatch rEmail remote (Submit d) w) = False"
  using assms
  by (cases "step w")
     (simp_all add: dispatch_def submit_defs handler_defs step_request_def retry_message_def
        Let_def)

theorem transport_error_caught_witness:
  "resolver sample_rEmail (step at_otp) sample_values = [] \<and>
   unreachable (step_request at_otp sample_values) = Threw ''Network Error'' \<and>
   step (dispatch sample_rEmail unreachable (Submit sample_values) at_otp) = Otp \<and>
   message (dispatch sample_rEmail unreachable (Submit sample_values) at_otp) =
     ''Error verifying OTP. Please try again.'' \<and>
   success (dispatch sample_rEmail unreachable (Submit sample_values) at_otp) = False \<and>
   requests (dispatch sample_rEmail unreachable (Submit sample_values) at_otp) =
     [forgot_password_request sample_values, verify_otp_request ''a@b.co'' sample_values]"
proof -
  have h1: "resolver sample_rEmail (step at_otp) sample_values = []"
    by (simp add: at_otp_eq resolver_def otpSchema_def sample_defs)
  have h2: "unreachable (step_request at_otp sample_values) = Threw ''Network Error''"
    by (simp add: unreachable_def)
  from transport_error_caught [where remote = unreachable and w = at_otp
      and d = sample_values and rEmail = sample_rEmail, OF h1 h2] h1 h2 show ?thesis
    by (simp add: at_otp_eq step_request_def retry_message_def)
qed

subsection \<open>Resetting the password\<close>

text \<open>
  C6: in step Reset the reset-password request is posted exactly when the new password
  has at least 6 characters and the confirmation equals it; otherwise nothing is posted.
  When the two fields differ, the resulting state does not depend on the backend at all.
\<close>

theorem reset_gate:
  assumes "step w = Reset"
  shows "(6 \<le> length (f_newPassword d) \<and> f_confirmNewPassword d = f_newPassword d \<longrightarrow>
            requests (submitReset rEmail remote d w) =
              requests w @ [reset_password_request (email w) d]) \<and>
         (\<not> (6 \<le> length (f_newPassword d) \<and> f_confirmNewPassword d = f_newPassword d) \<longrightarrow>
            requests (submitReset rEmail remote d w) = requests w) \<and>
         (f_confirmNewPassword d \<noteq> f_newPassword d \<longrightarrow>
            submitReset rEmail remote d w = submitReset rEmail remote' d w)"
  using assms passwordSchema_ok [of d]
  by (auto simp: submit_defs handlePasswordReset_def Let_def split: outcome.splits)

theorem reset_gate_witness:
  "step at_reset = Reset \<and>
   requests (submitReset sample_rEmail accepting sample_values at_reset) =
     requests at_reset @ [reset_password_request ''a@b.co'' sample_values] \<and>
   f_confirmNewPassword mismatched_values \<noteq> f_newPassword mismatched_values \<and>
   requests (submitReset sample_rEmail accepting mismatched_values at_reset) =
     requests at_reset \<and>
   submitReset sample_rEmail accepting mismatched_values at_reset =
     submitReset sample_rEmail rejecting mismatched_values at_reset"
proof -
  have h: "step at_reset = Reset" by (simp add: at_reset_eq)
  have e: "email at_reset = ''a@b.co''" by (simp add: at_reset_eq)
  have ok: "6 \<le> length (f_newPassword sample_values) \<and>
      f_confirmNewPassword sample_values = f_newPassword sample_values"
    by (simp add: sample_values_def)
  have m: "f_confirmNewPassword mismatched_values \<noteq> f_newPassword mismatched_values"
    by (simp add: mismatched_values_def sample_values_def)
  note a = reset_gate [OF h, of sample_values sample_rEmail accepting accepting]
  note b = reset_gate [OF h, of mismatched_values sample_rEmail accepting rejecting]
  from a ok e have 1: "requests (submitReset sample_rEmail accepting sample_values at_reset) =
      requests at_reset @ [reset_password_request ''a@b.co'' sample_values]"
    by simp
  from b m have 2: "requests (submitReset sample_rEmail accepting mismatched_values at_reset) =
      requests at_reset"
    by blast
  from b m have 3: "submitReset sample_rEmail accepting mismatched_values at_reset =
      submitReset sample_rEmail rejecting mismatched_values at_reset"
    by blast
  from h 1 m 2 3 show ?thesis by blast
qed

text \<open>
  C7: in step Reset, when the values pass validation and reset-password answers with
  success, the step becomes Email and exactly one navigation (to the login route) is
  added; in every other case (validation error, success false, thrown call) the list of
  navigations is unchanged.
\<close>

theorem reset_success_navigates_once:
  assumes "step w = Reset"
  shows "(passwordSchema d = [] \<and> succeeded (remote (reset_password_request (email w) d)) \<longrightarrow>
            step (submitReset rEmail remote d w) = Email \<and>
            navigations (submitReset rEmail remote d w) = navigations w @ [''/login'']) \<and>
         (\<not> (passwordSchema d = [] \<and>
             succeeded (remote (reset_password_request (email w) d))) \<longrightarrow>
            navigations (submitReset rEmail remote d w) = navigations w)"
  using assms
  by (cases "remote (reset_password_request (email w) d)")
     (auto simp: submit_defs handlePasswordReset_def Let_def)

theorem reset_success_navigates_once_witness:
  "step at_reset = Reset \<and> passwordSchema sample_values = [] \<and>
   succeeded (accepting (reset_password_request (email at_reset) sample_values)) \<and>
   step (submitReset sample_rEmail accepting sample_values at_reset) = Email \<and>
   navigations (submitReset sample_rEmail accepting sample_values at_reset) = [''/login''] \<and>
   \<not> succeeded (rejecting (reset_password_request (email at_reset) sample_values)) \<and>
   navigations (submitReset sample_rEmail rejecting sample_values at_reset) = [] \<and>
   \<not> succeeded (unreachable (reset_password_request (email at_reset) sample_values)) \<and>
   navigations (submitReset sample_rEmail unreachable sample_values at_reset) = []"
proof -
  have h: "step at_reset = Reset" by (simp add: at_reset_eq)
  have v: "passwordSchema sample_values = []" by (simp add: passwordSchema_def sample_defs)
  have n: "navigations at_reset = []" by (simp add: at_reset_eq)
  from reset_success_navigates_once [OF h, of sample_values accepting sample_rEmail]
    reset_success_navigates_once [OF h, of sample_values rejecting sample_rEmail]
    reset_success_navigates_once [OF h, of sample_values unreachable sample_rEmail] h v n
  show ?thesis by (simp add: accepting_def rejecting_def unreachable_def)
qed

section \<open>Properties of the client form\<close>

subsection \<open>The schema against the listed conditions\<close>

lemma title_errors_iff: "title_errors t \<noteq> [] \<longleftrightarrow> spec_title_violation t"
  by (auto simp: title_errors_def spec_title_violation_def)

lemma website_errors_iff: "website_errors rUrl u \<noteq> [] \<longleftrightarrow> spec_website_violation rUrl u"
  by (auto simp: website_errors_def spec_website_violation_def)

lemma content_errors_iff: "content_errors c \<noteq> [] \<longleftrightarrow> spec_content_violation c"
  by (auto simp: content_errors_def spec_content_violation_def)

lemma image_errors_iff: "image_errors v \<noteq> [] \<longleftrightarrow> spec_image_violation v"
  by (cases v)
     (auto simp: image_errors_def spec_image_violation_def fileFormat_def fileSize_def
        allowedTypes_def)

lemma clientSchema_iff:
  "clientSchema rUrl (title c) (website c) (content c) (imageFile c) \<noteq> [] \<longleftrightarrow>
     spec_client_violation rUrl c"
  by (simp add: clientSchema_def spec_client_violation_def title_errors_iff website_errors_iff
      content_errors_iff image_errors_iff)

subsection \<open>The error object\<close>

lemma newErrors_dom:
  "dom (foldl (\<lambda>newErrors (path, msg). newErrors(path \<mapsto> msg)) acc inner) =
     dom acc \<union> fst ` set inner"
  by (induction inner arbitrary: acc) (auto split: prod.splits)

lemma paths_of_field: "fst ` Pair k ` set ms = (if ms = [] then {} else {k})"
  by (cases ms) (auto simp: image_iff)

lemma clientSchema_paths:
  "fst ` set (clientSchema rUrl t u c v) =
     (if title_errors t = [] then {} else {''title''}) \<union>
     (if website_errors rUrl u = [] then {} else {''website''}) \<union>
     (if content_errors c = [] then {} else {''content''}) \<union>
     (if image_errors v = [] then {} else {''image''})"
  by (simp add: clientSchema_def image_Un paths_of_field)

lemma validateForm_fst:
  "fst (validateForm rUrl c) \<longleftrightarrow>
     clientSchema rUrl (title c) (website c) (content c) (imageFile c) = []"
  by (simp add: validateForm_def Let_def)

lemma validateForm_errors:
  "dom (field_errors (snd (validateForm rUrl c))) =
     fst ` set (clientSchema rUrl (title c) (website c) (content c) (imageFile c))"
  by (simp add: validateForm_def Let_def newErrors_dom)

lemma validateForm_sent: "sent (snd (validateForm rUrl c)) = sent c"
  by (simp add: validateForm_def Let_def)

lemma rejected_submit:
  assumes "clientSchema rUrl (title c) (website c) (content c) (imageFile c) \<noteq> []"
  shows "clientHandleSubmit rUrl remote p c =
     (snd (validateForm rUrl c))
       \<lparr>toasts := toasts c @ [ToastError ''Please fix the errors in the form.'']\<rparr>"
  using assms by (simp add: clientHandleSubmit_def validateForm_def Let_def)

lemma sent_finish: "sent (finish p c) = sent c"
  by (simp add: finish_def resetForm_def Let_def)

lemma sent_failed: "sent (failed c) = sent c"
  by (simp add: failed_def)

text \<open>The entry of a path in the new error object: the last message reported for it.\<close>

lemma newErrors_lookup:
  "foldl (\<lambda>newErrors (path, msg). newErrors(path \<mapsto> msg)) acc inner k =
     (if filter (\<lambda>e. fst e = k) inner = [] then acc k
      else Some (snd (last (filter (\<lambda>e. fst e = k) inner))))"
  by (induction inner rule: rev_induct) (auto split: prod.splits)

lemma filter_field:
  "filter (\<lambda>e. fst e = k) (map (Pair k') ms) = (if k = k' then map (Pair k') ms else [])"
  by (induction ms) auto

lemma last_field: "ms \<noteq> [] \<Longrightarrow> snd (last (map (Pair k) ms)) = last ms"
  by (simp add: last_map)

lemma rejected_lookup:
  assumes "clientSchema rUrl (title c) (website c) (content c) (imageFile c) \<noteq> []"
  shows "field_errors (clientHandleSubmit rUrl remote p c) k =
     (if filter (\<lambda>e. fst e = k)
           (clientSchema rUrl (title c) (website c) (content c) (imageFile c)) = []
      then None
      else Some (snd (last (filter (\<lambda>e. fst e = k)
             (clientSchema rUrl (title c) (website c) (content c) (imageFile c))))))"
  using assms
  by (simp add: rejected_submit validateForm_def Let_def newErrors_lookup)

lemma title_entry:
  assumes "clientSchema rUrl (title c) (website c) (content c) (imageFile c) \<noteq> []"
  shows "field_errors (clientHandleSubmit rUrl remote p c) ''title'' =
     (if title_errors (title c) = [] then None else Some (last (title_errors (title c))))"
  by (simp add: rejected_lookup [OF assms] clientSchema_def filter_field last_field)

lemma website_entry:
  assumes "clientSchema rUrl (title c) (website c) (content c) (imageFile c) \<noteq> []"
  shows "field_errors (clientHandleSubmit rUrl remote p c) ''website'' =
     (if website_errors rUrl (website c) = [] then None
      else Some (last (website_errors rUrl (website c))))"
  by (simp add: rejected_lookup [OF assms] clientSchema_def filter_field last_field)

lemma content_entry:
  assumes "clientSchema rUrl (title c) (website c) (content c) (imageFile c) \<noteq> []"
  shows "field_errors (clientHandleSubmit rUrl remote p c) ''content'' =
     (if content_errors (content c) = [] then None
      else Some (last (content_errors (content c))))"
  by (simp add: rejected_lookup [OF assms] clientSchema_def filter_field last_field)

lemma image_entry:
  assumes "clientSchema rUrl (title c) (website c) (content c) (imageFile c) \<noteq> []"
  shows "field_errors (clientHandleSubmit rUrl remote p c) ''image'' =
     (if image_errors (imageFile c) = [] then None
      else Some (last (image_errors (imageFile c))))"
  by (simp add: rejected_lookup [OF assms] clientSchema_def filter_field last_field)

text \<open>Which message that is, in terms of the listed conditions.\<close>

lemma title_message:
  "(if title_errors t = [] then None else Some (last (title_errors t))) =
     (if spec_title_violation t
      then Some (if t = [] then ''Client name is required''
                 else ''Client name cannot exceed 100 characters'')
      else None)"
  by (auto simp: title_errors_def spec_title_violation_def)

lemma website_message:
  "(if website_errors rUrl u = [] then None else Some (last (website_errors rUrl u))) =
     (if spec_website_violation rUrl u
      then Some (if 255 < length u then ''Website URL cannot exceed 255 characters''
                 else if u = [] then ''Website URL is required''
                 else ''Please enter a valid URL (e.g., https://example.com)'')
      else None)"
  by (auto simp: website_errors_def spec_website_violation_def)

lemma content_message:
  "(if content_errors c = [] then None else Some (last (content_errors c))) =
     (if spec_content_violation c
      then Some (if 1000 < length c then ''Description cannot exceed 1000 characters''
                 else ''Description must be at least 10 characters'')
      else None)"
  by (auto simp: content_errors_def spec_content_violation_def)

lemma image_message:
  "(if image_errors v = [] then None else Some (last (image_errors v))) =
     (if spec_image_violation v
      then Some (if fileSize v then ''Only JPG, PNG, GIF and WEBP images are allowed''
                 else ''Image size cannot exceed 2MB'')
      else None)"
  by (cases v)
     (auto simp: image_errors_def spec_image_violation_def fileFormat_def fileSize_def
        allowedTypes_def)

text \<open>In edit mode without a record to edit, a valid form is closed and nothing is sent.\<close>

lemma edit_without_record:
  assumes "clientSchema rUrl (title c) (website c) (content c) (imageFile c) = []"
    and "mode p = ''edit''" and "initialData p = None"
  shows "sent (clientHandleSubmit rUrl remote p c) = sent c"
  using assms by (simp add: clientHandleSubmit_def validateForm_def sent_finish Let_def)

lemma filled_form_valid:
  "clientSchema sample_rUrl (title filled_form) (website filled_form) (content filled_form)
     (imageFile filled_form) = []"
  by (simp add: clientSchema_def title_errors_def website_errors_def content_errors_def
      image_errors_def fileFormat_def fileSize_def filled_form_def blank_form_def
      sample_rUrl_def)

subsection \<open>Submission\<close>

text \<open>
  C9, as stated, fails. The component can be in edit mode with no record to edit (the
  source tests \<^verbatim>\<open>mode === "edit" && initialData\<close>); a valid submission then sends no
  request at all.
\<close>

theorem edit_without_record_counterexample:
  "clientSchema sample_rUrl (title filled_form) (website filled_form) (content filled_form)
     (imageFile filled_form) = [] \<and>
   mode recordless_props = ''edit'' \<and> initialData recordless_props = None \<and>
   sent (clientHandleSubmit sample_rUrl saving recordless_props filled_form) = []"
proof -
  have m: "mode recordless_props = ''edit''" and i: "initialData recordless_props = None"
    by (simp_all add: recordless_props_def)
  have "sent filled_form = []" by (simp add: filled_form_def blank_form_def)
  with edit_without_record [OF filled_form_valid m i, of saving] filled_form_valid m i
  show ?thesis by simp
qed

text \<open>
  C9, amended: when the form's values pass the schema, a submission in add mode adds
  exactly one request, a POST to /client/create-client; a submission in edit mode with
  an existing record adds exactly one request, a PUT to /client/update-client/ followed
  by that record's id, whether or not the call then throws; a submission in edit mode
  without a record adds none. The multipart body has the fields name, website and
  description with the form's title, website and content, and a field logo with the
  selected file exactly when a file is selected.
\<close>

theorem valid_client_one_request:
  assumes "clientSchema rUrl (title c) (website c) (content c) (imageFile c) = []"
  shows "(mode p = ''add'' \<longrightarrow>
            sent (clientHandleSubmit rUrl remote p c) =
              sent c @ [\<lparr>verb = POST, url = ''/client/create-client'',
                         payload = Multipart (formData c)\<rparr>]) \<and>
         (mode p = ''edit'' \<and> initialData p = Some r \<longrightarrow>
            sent (clientHandleSubmit rUrl remote p c) =
              sent c @ [\<lparr>verb = PUT, url = ''/client/update-client/'' @ client_id r,
                         payload = Multipart (formData c)\<rparr>]) \<and>
         (mode p = ''edit'' \<and> initialData p = None \<longrightarrow>
            sent (clientHandleSubmit rUrl remote p c) = sent c) \<and>
         map fst (formData c) =
           [''name'', ''website'', ''description''] @
           (if imageFile c = None then [] else [''logo'']) \<and>
         map_of (formData c) ''name'' = Some (Text (title c)) \<and>
         map_of (formData c) ''website'' = Some (Text (website c)) \<and>
         map_of (formData c) ''description'' = Some (Text (content c)) \<and>
         map_of (formData c) ''logo'' = map_option Upload (imageFile c)"
proof (intro conjI impI)
  show "sent (clientHandleSubmit rUrl remote p c) =
      sent c @ [\<lparr>verb = POST, url = ''/client/create-client'',
                 payload = Multipart (formData c)\<rparr>]"
    if "mode p = ''add''"
    using assms that
    by (cases "remote (create_request (snd (validateForm rUrl c)))")
       (simp_all add: clientHandleSubmit_def validateForm_def create_request_def formData_def
          sent_finish sent_failed Let_def)
  show "sent (clientHandleSubmit rUrl remote p c) =
      sent c @ [\<lparr>verb = PUT, url = ''/client/update-client/'' @ client_id r,
                 payload = Multipart (formData c)\<rparr>]"
    if "mode p = ''edit'' \<and> initialData p = Some r"
    using assms that
    by (cases "remote (update_request r (snd (validateForm rUrl c)))")
       (simp_all add: clientHandleSubmit_def validateForm_def update_request_def formData_def
          sent_finish sent_failed Let_def)
  show "sent (clientHandleSubmit rUrl remote p c) = sent c"
    if "mode p = ''edit'' \<and> initialData p = None"
    using assms that
    by (simp add: clientHandleSubmit_def validateForm_def sent_finish Let_def)
qed (simp_all add: formData_def split: option.splits)

theorem valid_client_one_request_witness:
  "clientSchema sample_rUrl (title (filled_form\<lparr>imageFile := Some sample_logo\<rparr>))
     (website (filled_form\<lparr>imageFile := Some sample_logo\<rparr>))
     (content (filled_form\<lparr>imageFile := Some sample_logo\<rparr>))
     (imageFile (filled_form\<lparr>imageFile := Some sample_logo\<rparr>)) = [] \<and>
   mode add_props = ''add'' \<and>
   sent (clientHandleSubmit sample_rUrl saving add_props
          (filled_form\<lparr>imageFile := Some sample_logo\<rparr>)) =
     [\<lparr>verb = POST, url = ''/client/create-client'',
       payload = Multipart [(''name'', Text ''Acme''),
         (''website'', Text ''https://acme.example''),
         (''description'', Text ''Maker of anvils''), (''logo'', Upload sample_logo)]\<rparr>] \<and>
   mode edit_props = ''edit'' \<and> initialData edit_props = Some sample_client \<and>
   sent (clientHandleSubmit sample_rUrl saving edit_props
          (filled_form\<lparr>imageFile := Some sample_logo\<rparr>)) =
     [\<lparr>verb = PUT, url = ''/client/update-client/42'',
       payload = Multipart [(''name'', Text ''Acme''),
         (''website'', Text ''https://acme.example''),
         (''description'', Text ''Maker of anvils''), (''logo'', Upload sample_logo)]\<rparr>] \<and>
   map fst (formData filled_form) = [''name'', ''website'', ''description'']"
proof -
  let ?c = "filled_form\<lparr>imageFile := Some sample_logo\<rparr>"
  have h: "clientSchema sample_rUrl (title ?c) (website ?c) (content ?c) (imageFile ?c) = []"
    by (simp add: clientSchema_def title_errors_def website_errors_def content_errors_def
        image_errors_def fileFormat_def fileSize_def allowedTypes_def filled_form_def
        blank_form_def sample_logo_def sample_rUrl_def)
  from valid_client_one_request [OF h, of add_props saving sample_client]
    valid_client_one_request [OF h, of edit_props saving sample_client]
    valid_client_one_request [OF filled_form_valid, of add_props saving sample_client] h
  show ?thesis
    by (simp add: add_props_def edit_props_def sample_client_def formData_def filled_form_def
        blank_form_def)
qed

text \<open>
  C10: when a field violates one of the listed conditions, the submission sends no
  request and the error object holds, for every field in violation, that field's
  message (the message of the last failing test of the field) and nothing for the
  other fields. When no image is selected the image is never in violation, and the
  form validates exactly when title, website and description do.
\<close>

theorem invalid_client_no_request:
  "(spec_client_violation rUrl c \<longrightarrow>
      sent (clientHandleSubmit rUrl remote p c) = sent c \<and>
      field_errors (clientHandleSubmit rUrl remote p c) ''title'' =
        (if spec_title_violation (title c)
         then Some (if title c = [] then ''Client name is required''
                    else ''Client name cannot exceed 100 characters'')
         else None) \<and>
      field_errors (clientHandleSubmit rUrl remote p c) ''website'' =
        (if spec_website_violation rUrl (website c)
         then Some (if 255 < length (website c) then ''Website URL cannot exceed 255 characters''
                    else if website c = [] then ''Website URL is required''
                    else ''Please enter a valid URL (e.g., https://example.com)'')
         else None) \<and>
      field_errors (clientHandleSubmit rUrl remote p c) ''content'' =
        (if spec_content_violation (content c)
         then Some (if 1000 < length (content c)
                    then ''Description cannot exceed 1000 characters''
                    else ''Description must be at least 10 characters'')
         else None) \<and>
      field_errors (clientHandleSubmit rUrl remote p c) ''image'' =
        (if spec_image_violation (imageFile c)
         then Some (if fileSize (imageFile c)
                    then ''Only JPG, PNG, GIF and WEBP images are allowed''
                    else ''Image size cannot exceed 2MB'')
         else None)) \<and>
   (imageFile c = None \<longrightarrow>
      \<not> spec_image_violation (imageFile c) \<and>
      (fst (validateForm rUrl c) \<longleftrightarrow>
         \<not> spec_title_violation (title c) \<and> \<not> spec_website_violation rUrl (website c) \<and>
         \<not> spec_content_violation (content c)))"
proof (intro conjI impI)
  assume v: "spec_client_violation rUrl c"
  then have ne: "clientSchema rUrl (title c) (website c) (content c) (imageFile c) \<noteq> []"
    by (simp add: clientSchema_iff)
  let ?w = "clientHandleSubmit rUrl remote p c"
  show "sent ?w = sent c"
    by (simp add: rejected_submit [OF ne] validateForm_sent)
  show "field_errors ?w ''title'' =
        (if spec_title_violation (title c)
         then Some (if title c = [] then ''Client name is required''
                    else ''Client name cannot exceed 100 characters'')
         else None)"
    by (simp only: title_entry [OF ne] title_message)
  show "field_errors ?w ''website'' =
        (if spec_website_violation rUrl (website c)
         then Some (if 255 < length (website c) then ''Website URL cannot exceed 255 characters''
                    else if website c = [] then ''Website URL is required''
                    else ''Please enter a valid URL (e.g., https://example.com)'')
         else None)"
    by (simp only: website_entry [OF ne] website_message)
  show "field_errors ?w ''content'' =
        (if spec_content_violation (content c)
         then Some (if 1000 < length (content c)
                    then ''Description cannot exceed 1000 characters''
                    else ''Description must be at least 10 characters'')
         else None)"
    by (simp only: content_entry [OF ne] content_message)
  show "field_errors ?w ''image'' =
        (if spec_image_violation (imageFile c)
         then Some (if fileSize (imageFile c)
                    then ''Only JPG, PNG, GIF and WEBP images are allowed''
                    else ''Image size cannot exceed 2MB'')
         else None)"
    by (simp only: image_entry [OF ne] image_message)
next
  assume "imageFile c = None"
  then show i: "\<not> spec_image_violation (imageFile c)"
    by (simp add: spec_image_violation_def)
  then show "fst (validateForm rUrl c) \<longleftrightarrow>
         \<not> spec_title_violation (title c) \<and> \<not> spec_website_violation rUrl (website c) \<and>
         \<not> spec_content_violation (content c)"
    using clientSchema_iff [of rUrl c]
    by (auto simp: validateForm_fst spec_client_violation_def)
qed

theorem invalid_client_no_request_witness:
  "spec_client_violation sample_rUrl blank_form \<and> spec_title_violation (title blank_form) \<and>
   sent (clientHandleSubmit sample_rUrl saving add_props blank_form) = [] \<and>
   field_errors (clientHandleSubmit sample_rUrl saving add_props blank_form) ''title'' =
     Some ''Client name is required'' \<and>
   field_errors (clientHandleSubmit sample_rUrl saving add_props blank_form) ''website'' =
     Some ''Website URL is required'' \<and>
   field_errors (clientHandleSubmit sample_rUrl saving add_props blank_form) ''content'' =
     Some ''Description must be at least 10 characters'' \<and>
   field_errors (clientHandleSubmit sample_rUrl saving add_props blank_form) ''image'' = None \<and>
   imageFile filled_form = None \<and> fst (validateForm sample_rUrl filled_form)"
proof -
  have t: "spec_title_violation (title blank_form)"
    by (simp add: spec_title_violation_def blank_form_def)
  then have v: "spec_client_violation sample_rUrl blank_form"
    by (simp add: spec_client_violation_def)
  have u: "spec_website_violation sample_rUrl (website blank_form)"
    by (simp add: spec_website_violation_def blank_form_def)
  have d: "spec_content_violation (content blank_form)"
    by (simp add: spec_content_violation_def blank_form_def)
  have n: "\<not> spec_image_violation (imageFile blank_form)"
    by (simp add: spec_image_violation_def blank_form_def)
  have i: "imageFile filled_form = None" by (simp add: filled_form_def blank_form_def)
  have ok: "\<not> spec_title_violation (title filled_form) \<and>
      \<not> spec_website_violation sample_rUrl (website filled_form) \<and>
      \<not> spec_content_violation (content filled_form)"
    by (simp add: spec_title_violation_def spec_website_violation_def
        spec_content_violation_def filled_form_def blank_form_def sample_rUrl_def)
  from invalid_client_no_request [of sample_rUrl blank_form saving add_props]
    invalid_client_no_request [of sample_rUrl filled_form saving add_props] t v u d n i ok
  show ?thesis by (simp add: blank_form_def)
qed

end
